theory Spec2Isabelle
  imports Main "HOL-Library.AList" "HOL-Library.Monad_Syntax"
begin

section \<open>Library functions called by \<^verbatim>\<open>datadog/provider.go\<close>\<close>

text \<open>
  The provider is one Go file. Its logic sits in three functions: \<^verbatim>\<open>providerConfigure\<close>
  (the bootstrap), \<^verbatim>\<open>translateClientError\<close> and \<^verbatim>\<open>getUserAgent\<close>. They call a few
  functions of Go's standard library; the ones whose result decides a property are
  transcribed here from the library (\<^verbatim>\<open>strings\<close>, \<^verbatim>\<open>fmt\<close>, and
  \<^verbatim>\<open>(*URL).Hostname\<close> of \<^verbatim>\<open>net/url\<close>). The URL parser itself and the remote
  validation call are inputs of the model (record \<open>env\<close> below).
\<close>

subsection \<open>Package strings\<close>

text \<open>\<^verbatim>\<open>strings.Split(s, sep)\<close> for a one-byte separator: every separator ends a
  piece, so the empty string gives one empty piece.\<close>

fun strings_Split :: "string \<Rightarrow> char \<Rightarrow> string list" where
  "strings_Split [] sep = [[]]"
| "strings_Split (c # cs) sep =
     (if c = sep then [] # strings_Split cs sep
      else (case strings_Split cs sep of
              [] \<Rightarrow> [[c]]
            | w # ws \<Rightarrow> (c # w) # ws))"

text \<open>\<^verbatim>\<open>strings.Join(elems, sep)\<close>.\<close>

fun strings_Join :: "string list \<Rightarrow> string \<Rightarrow> string" where
  "strings_Join [] sep = []"
| "strings_Join [w] sep = w"
| "strings_Join (w # v # ws) sep = w @ sep @ strings_Join (v # ws) sep"

text \<open>\<^verbatim>\<open>strings.LastIndexByte(s, c)\<close>; \<open>None\<close> is Go's \<open>-1\<close>.\<close>

fun strings_LastIndexByte :: "string \<Rightarrow> char \<Rightarrow> nat option" where
  "strings_LastIndexByte [] c = None"
| "strings_LastIndexByte (x # xs) c =
     (case strings_LastIndexByte xs c of
        Some i \<Rightarrow> Some (Suc i)
      | None \<Rightarrow> if x = c then Some 0 else None)"

text \<open>\<^verbatim>\<open>strings.HasPrefix\<close>, \<^verbatim>\<open>strings.HasSuffix\<close> and \<^verbatim>\<open>strings.Contains\<close>.\<close>

fun strings_HasPrefix :: "string \<Rightarrow> string \<Rightarrow> bool" where
  "strings_HasPrefix s [] = True"
| "strings_HasPrefix [] (p # ps) = False"
| "strings_HasPrefix (c # cs) (p # ps) = (c = p \<and> strings_HasPrefix cs ps)"

definition strings_HasSuffix :: "string \<Rightarrow> string \<Rightarrow> bool" where
  "strings_HasSuffix s suffix = strings_HasPrefix (rev s) (rev suffix)"

fun strings_Contains :: "string \<Rightarrow> string \<Rightarrow> bool" where
  "strings_Contains [] substr = (substr = [])"
| "strings_Contains (c # cs) substr =
     (strings_HasPrefix (c # cs) substr \<or> strings_Contains cs substr)"

subsection \<open>Package fmt: the verbs the provider's format strings can reach\<close>

text \<open>
  An operand of \<^verbatim>\<open>Sprintf\<close>/\<^verbatim>\<open>Errorf\<close>: a string, an \<^verbatim>\<open>error\<close> (given by the text
  of its \<^verbatim>\<open>Error()\<close> method) or a byte slice.
\<close>

datatype fmt_arg = StringArg string | ErrorArg string | BytesArg string

text \<open>A byte in decimal, as \<^verbatim>\<open>%v\<close> prints the elements of a byte slice.\<close>

definition digit :: "nat \<Rightarrow> char" where
  "digit n = ''0123456789'' ! n"

definition byteDecimal :: "char \<Rightarrow> string" where
  "byteDecimal b =
     (let n = (of_char b :: nat) in
      if n < 10 then [digit n]
      else if n < 100 then [digit (n div 10), digit (n mod 10)]
      else [digit (n div 100), digit (n div 10 mod 10), digit (n mod 10)])"

text \<open>
  One operand under one verb. \<^verbatim>\<open>%s\<close> and \<^verbatim>\<open>%v\<close> print a string as it is and an
  error by its \<^verbatim>\<open>Error()\<close> text; \<^verbatim>\<open>%s\<close> prints a byte slice as the string it holds,
  \<^verbatim>\<open>%v\<close> prints it as \<^verbatim>\<open>[104 105]\<close>. Every other verb is outside this fragment
  (\<open>None\<close>).
\<close>

fun fmt_verb :: "char \<Rightarrow> fmt_arg \<Rightarrow> string option" where
  "fmt_verb v (StringArg s) = (if v = CHR ''s'' \<or> v = CHR ''v'' then Some s else None)"
| "fmt_verb v (ErrorArg e) = (if v = CHR ''s'' \<or> v = CHR ''v'' then Some e else None)"
| "fmt_verb v (BytesArg b) =
     (if v = CHR ''s'' then Some b
      else if v = CHR ''v'' then Some (''['' @ strings_Join (map byteDecimal b) '' '' @ '']'')
      else None)"

text \<open>
  \<^verbatim>\<open>fmt.Sprintf(format, args...)\<close> on the fragment: literal bytes, \<^verbatim>\<open>%%\<close>, and
  \<^verbatim>\<open>%s\<close>/\<^verbatim>\<open>%v\<close> without flags. A verb with no operand left prints
  \<^verbatim>\<open>%!v(MISSING)\<close>, as fmt does. \<open>None\<close> stands for a format outside the fragment
  (flags, widths, other verbs, a trailing \<^verbatim>\<open>%\<close>, operands left over): fmt prints
  something there too, which this model does not describe.
\<close>

fun fmt_Sprintf :: "string \<Rightarrow> fmt_arg list \<Rightarrow> string option" where
  "fmt_Sprintf [] args = (if args = [] then Some [] else None)"
| "fmt_Sprintf [c] args =
     (if c = CHR ''%'' then None
      else map_option ((#) c) (fmt_Sprintf [] args))"
| "fmt_Sprintf (c # v # rest) args =
     (if c \<noteq> CHR ''%'' then map_option ((#) c) (fmt_Sprintf (v # rest) args)
      else if v = CHR ''%'' then map_option ((#) CHR ''%'') (fmt_Sprintf rest args)
      else if v = CHR ''s'' \<or> v = CHR ''v'' then
        (case args of
           [] \<Rightarrow> map_option ((@) (''%!'' @ [v] @ ''(MISSING)'')) (fmt_Sprintf rest [])
         | a # as \<Rightarrow>
             (case fmt_verb v a of
                None \<Rightarrow> None
              | Some s \<Rightarrow> map_option ((@) s) (fmt_Sprintf rest as)))
      else None)"

subsection \<open>Package net/url: the parsed URL and its Hostname method\<close>

text \<open>The two fields of \<^verbatim>\<open>url.URL\<close> that the provider reads.\<close>

record URL =
  Scheme :: string
  Host :: string

text \<open>\<^verbatim>\<open>validOptionalPort\<close>: the empty string, or a colon followed by digits only.\<close>

definition validOptionalPort :: "string \<Rightarrow> bool" where
  "validOptionalPort port =
     (case port of
        [] \<Rightarrow> True
      | c # ds \<Rightarrow> c = CHR '':'' \<and> list_all (\<lambda>b. b \<in> set ''0123456789'') ds)"

text \<open>
  \<^verbatim>\<open>splitHostPort\<close>, on which \<^verbatim>\<open>Hostname\<close> rests: the text from the last colon
  on is the port when it is a valid optional port; square brackets around what remains
  are removed. (Older releases of Go cut at the first colon instead; the two agree on a
  host name followed by one port.)
\<close>

definition splitHostPort :: "string \<Rightarrow> string \<times> string" where
  "splitHostPort hostPort =
     (let (host, port) =
            (case strings_LastIndexByte hostPort CHR '':'' of
               Some colon \<Rightarrow>
                 if validOptionalPort (drop colon hostPort)
                 then (take colon hostPort, drop (Suc colon) hostPort)
                 else (hostPort, [])
             | None \<Rightarrow> (hostPort, []))
      in if strings_HasPrefix host ''['' \<and> strings_HasSuffix host '']''
         then (take (length host - 2) (drop 1 host), port)
         else (host, port))"

definition Hostname :: "URL \<Rightarrow> string" where
  "Hostname u = fst (splitHostPort (Host u))"

section \<open>Data of the bootstrap\<close>

text \<open>
  The configuration read through \<^verbatim>\<open>d.Get\<close>: the four options of the provider
  schema, with the types of the type assertions of \<^verbatim>\<open>providerConfigure\<close>.
\<close>

record ResourceData =
  api_key :: string
  app_key :: string
  api_url :: string
  validate :: bool

text \<open>
  The legacy client \<^verbatim>\<open>datadogCommunity.Client\<close>: its keys, its base URL and the extra
  headers it sends (a Go map, kept as an association list with one entry for each key).
\<close>

record Client =
  client_apiKey :: string
  client_appKey :: string
  baseUrl :: string
  ExtraHeader :: "(string \<times> string) list"

text \<open>
  The configuration of a current-generation client (\<^verbatim>\<open>datadogV1.Configuration\<close> and
  \<^verbatim>\<open>datadogV2.Configuration\<close> have the fields set here in common).
\<close>

record Configuration =
  UserAgent :: string
  Debug :: bool
  unstableOperations :: "(string \<times> bool) list"

text \<open>
  A \<^verbatim>\<open>context.Context\<close> is the chain of values that \<^verbatim>\<open>context.WithValue\<close> builds,
  the latest first; \<^verbatim>\<open>Value\<close> returns the nearest value stored under a key. The keys
  are the five context keys of the API clients that the provider uses, each with the Go type
  of the value stored under it.
\<close>

datatype ctx_key =
    ContextAPIKeys
  | ContextServerIndex
  | ContextServerVariables
  | ContextOperationServerIndices
  | ContextOperationServerVariables

datatype ctx_value =
    APIKeys "(string \<times> string) list"
  | ServerIndex int
  | ServerVariables "(string \<times> string) list"
  | OperationServerIndices "(string \<times> int) list"
  | OperationServerVariables "(string \<times> (string \<times> string) list) list"

type_synonym Context = "(ctx_key \<times> ctx_value) list"

definition context_Background :: Context where
  "context_Background = []"

definition context_WithValue :: "Context \<Rightarrow> ctx_key \<Rightarrow> ctx_value \<Rightarrow> Context" where
  "context_WithValue parent key val = (key, val) # parent"

definition Value :: "Context \<Rightarrow> ctx_key \<Rightarrow> ctx_value option" where
  "Value ctx key = map_of ctx key"

text \<open>
  \<^verbatim>\<open>ProviderConfiguration\<close>, the value returned to the host. A current-generation
  client is given by the configuration it was created from. The field \<^verbatim>\<open>now\<close> (the
  clock) is left out: no property below reads it.
\<close>

record ProviderConfiguration =
  CommunityClient :: Client
  DatadogClientV1 :: Configuration
  DatadogClientV2 :: Configuration
  AuthV1 :: Context
  AuthV2 :: Context

text \<open>
  What the bootstrap takes from outside the file:
  \<^item> \<open>url_Parse\<close>: \<^verbatim>\<open>url.Parse\<close>, returning the text of the parse error (\<open>Inl\<close>) or
    the parsed URL;
  \<^item> \<open>Validate\<close>: what \<^verbatim>\<open>communityClient.Validate()\<close> returns for a client, Go's
    pair \<^verbatim>\<open>(ok, err)\<close> with \<open>None\<close> for a nil error; the error is the one of the
    legacy client, whether it comes from the remote service, from the transport or from a
    base URL that gives no request;
  \<^item> \<open>ProviderVersion\<close>, \<open>SDKVersionString\<close>, \<open>TerraformVersion\<close>: the three
    version strings read by \<^verbatim>\<open>getUserAgent\<close>;
  \<^item> \<open>runtime_Version\<close>, \<open>GOOS\<close>, \<open>GOARCH\<close>: the constants of package runtime;
  \<^item> \<open>defaultBaseUrl\<close>: the base URL that \<^verbatim>\<open>datadogCommunity.NewClient\<close> sets;
  \<^item> \<open>userAgentV1\<close>, \<open>userAgentV2\<close>: the \<^verbatim>\<open>UserAgent\<close> that \<^verbatim>\<open>NewConfiguration()\<close>
    of each API client sets;
  \<^item> \<open>IsDebugOrHigher\<close>: the log level read by \<^verbatim>\<open>logging.IsDebugOrHigher()\<close>.
\<close>

record env =
  url_Parse :: "string \<Rightarrow> string + URL"
  Validate :: "Client \<Rightarrow> bool \<times> string option"
  ProviderVersion :: string
  SDKVersionString :: string
  TerraformVersion :: string
  runtime_Version :: string
  GOOS :: string
  GOARCH :: string
  defaultBaseUrl :: string
  userAgentV1 :: string
  userAgentV2 :: string
  IsDebugOrHigher :: bool

text \<open>
  The errors \<^verbatim>\<open>providerConfigure\<close> returns, one constructor for each
  \<^verbatim>\<open>return nil, err\<close> of the function, and the message of each:
  \<^item> \<open>MissingCredentials\<close>: line 128;
  \<^item> \<open>ValidationTransportError err\<close>: line 154, the error of \<^verbatim>\<open>Validate()\<close> as it is;
  \<^item> \<open>InvalidCredentials\<close>: lines 156 to 158;
  \<^item> \<open>MalformedEndpoint parseErr\<close>: lines 189 and 241, \<^verbatim>\<open>%v\<close> of the parse error;
  \<^item> \<open>IncompleteEndpoint apiURL\<close>: lines 192 and 244, \<^verbatim>\<open>%v\<close> of the input string.
\<close>

datatype error =
    MissingCredentials
  | ValidationTransportError string
  | InvalidCredentials
  | MalformedEndpoint string
  | IncompleteEndpoint string

fun error_text :: "error \<Rightarrow> string" where
  "error_text MissingCredentials = ''api_key and app_key must be set unless validate = false''"
| "error_text (ValidationTransportError err) = err"
| "error_text InvalidCredentials =
     ''Invalid or missing credentials provided to the Datadog Provider. Please confirm your API and APP keys are valid and are for the correct region, see https://www.terraform.io/docs/providers/datadog/ for more information on providing credentials for the Datadog Provider''"
| "error_text (MalformedEndpoint parseErr) = ''invalid API Url : '' @ parseErr"
| "error_text (IncompleteEndpoint apiURL) = ''missing protocol or host : '' @ apiURL"

text \<open>
  The effects of the bootstrap, in the order they happen: a line written to the log, or the
  call of \<^verbatim>\<open>communityClient.Validate()\<close> at line 151 (with the base URL of the client
  it is called on). That call is the one statement of \<^verbatim>\<open>providerConfigure\<close> that can
  reach the network. How many requests it sends is decided inside the legacy client
  (none when it cannot build a request from the base URL, several when it retries) and is
  not part of the event. \<open>networkCalls\<close> counts these calls: where it is 0, no request
  was sent.
\<close>

datatype event = LogLine string | ValidateCall string

definition networkCalls :: "event list \<Rightarrow> nat" where
  "networkCalls tr = length (filter (\<lambda>ev. case ev of ValidateCall u \<Rightarrow> True | LogLine l \<Rightarrow> False) tr)"

section \<open>The functions of the file\<close>

definition baseIpRangesSubdomain :: string where
  "baseIpRangesSubdomain = ''ip-ranges''"

text \<open>\<^verbatim>\<open>getUserAgent\<close>, lines 285 to 291.\<close>

definition getUserAgent :: "env \<Rightarrow> string \<Rightarrow> string option" where
  "getUserAgent e clientUserAgent =
     fmt_Sprintf ''terraform-provider-datadog/%s (terraform %s; terraform-cli %s) %s''
       [StringArg (ProviderVersion e),
        StringArg (SDKVersionString e),
        StringArg (TerraformVersion e),
        StringArg clientUserAgent]"

text \<open>
  The error values \<^verbatim>\<open>translateClientError\<close> tells apart by their dynamic type: the
  \<^verbatim>\<open>GenericOpenAPIError\<close> of either API client (its \<^verbatim>\<open>Error()\<close> text and its
  \<^verbatim>\<open>Body()\<close>), a \<^verbatim>\<open>*url.Error\<close>, and any other error, each given by its
  \<^verbatim>\<open>Error()\<close> text. The argument is a non-nil error.
\<close>

datatype go_error =
    V1GenericOpenAPIError string string
  | V2GenericOpenAPIError string string
  | UrlError string
  | OtherError string

fun Error :: "go_error \<Rightarrow> string" where
  "Error (V1GenericOpenAPIError text body) = text"
| "Error (V2GenericOpenAPIError text body) = text"
| "Error (UrlError text) = text"
| "Error (OtherError text) = text"

text \<open>
  \<^verbatim>\<open>translateClientError\<close>, lines 267 to 283. The context message is the head of the
  format string of each \<^verbatim>\<open>fmt.Errorf\<close>, as in the source; the result is the message of
  the error returned (\<open>None\<close> when the format leaves the fragment of \<open>fmt_Sprintf\<close>).
\<close>

definition translateClientError :: "go_error \<Rightarrow> string \<Rightarrow> string option" where
  "translateClientError err msg0 =
     (let msg = (if msg0 = [] then ''an error occurred'' else msg0) in
      case err of
        V1GenericOpenAPIError text body \<Rightarrow>
          fmt_Sprintf (msg @ '': %v: %s'') [ErrorArg (Error err), BytesArg body]
      | V2GenericOpenAPIError text body \<Rightarrow>
          fmt_Sprintf (msg @ '': %v: %s'') [ErrorArg (Error err), BytesArg body]
      | UrlError text \<Rightarrow>
          fmt_Sprintf (msg @ '' (url.Error): %s'') [ErrorArg (Error err)]
      | OtherError text \<Rightarrow>
          fmt_Sprintf (msg @ '': %s'') [StringArg (Error err)])"

subsection \<open>providerConfigure, lines 122 to 265\<close>

text \<open>\<^verbatim>\<open>datadogCommunity.NewClient\<close> and \<^verbatim>\<open>SetBaseUrl\<close> of the legacy client.\<close>

definition NewClient :: "env \<Rightarrow> string \<Rightarrow> string \<Rightarrow> Client" where
  "NewClient e apiKey appKey =
     \<lparr>client_apiKey = apiKey, client_appKey = appKey,
      baseUrl = defaultBaseUrl e, ExtraHeader = []\<rparr>"

definition SetBaseUrl :: "Client \<Rightarrow> string \<Rightarrow> Client" where
  "SetBaseUrl c url = c\<lparr>baseUrl := url\<rparr>"

text \<open>Lines 131 to 147: the legacy client, its base URL and its \<^verbatim>\<open>User-Agent\<close> header.\<close>

definition communityClientOf :: "env \<Rightarrow> ResourceData \<Rightarrow> Client option" where
  "communityClientOf e d = do {
     let communityClient = NewClient e (api_key d) (app_key d);
     let communityClient =
           (if api_url d \<noteq> [] then SetBaseUrl communityClient (api_url d)
            else communityClient);
     clientUserAgent \<leftarrow>
       fmt_Sprintf ''datadog-api-client-go/%s (go %s; os %s; arch %s)''
         [StringArg ''go-datadog-api'', StringArg (runtime_Version e),
          StringArg (GOOS e), StringArg (GOARCH e)];
     userAgent \<leftarrow> getUserAgent e clientUserAgent;
     Some (communityClient
             \<lparr>ExtraHeader := AList.update ''User-Agent'' userAgent (ExtraHeader communityClient)\<rparr>)
   }"

text \<open>
  Lines 149 to 163: the validation of the keys. With \<^verbatim>\<open>validate\<close> set,
  \<^verbatim>\<open>Validate()\<close> is called once on the legacy client; an error of the call, then a
  negative answer, end the bootstrap.
\<close>

definition validateKeys :: "env \<Rightarrow> Client \<Rightarrow> bool \<Rightarrow> (error + unit) \<times> event list" where
  "validateKeys e communityClient validating =
     (if validating then
        (let tr = [LogLine ''[INFO] Datadog client successfully initialized, now validating...'',
                   ValidateCall (baseUrl communityClient)]
         in case Validate e communityClient of
              (ok, Some err) \<Rightarrow>
                (Inl (ValidationTransportError err),
                 tr @ [LogLine (''[ERROR] Datadog Client validation error: '' @ err)])
            | (ok, None) \<Rightarrow>
                if \<not> ok then
                  (Inl InvalidCredentials,
                   tr @ [LogLine (''[ERROR] Datadog Client validation error: ''
                                  @ error_text InvalidCredentials)])
                else (Inr (), tr @ [LogLine ''[INFO] Datadog Client successfully validated.'']))
      else
        (Inr (), [LogLine ''[INFO] Skipping key validation (validate = false)'',
                  LogLine ''[INFO] Datadog Client successfully validated.'']))"

text \<open>
  \<^verbatim>\<open>NewConfiguration()\<close> and \<^verbatim>\<open>SetUnstableOperationEnabled\<close> of the API clients: the
  configuration starts with the client's own user agent; the operations the provider
  enables are recorded as it names them.
\<close>

definition NewConfiguration :: "string \<Rightarrow> Configuration" where
  "NewConfiguration clientUserAgent =
     \<lparr>UserAgent = clientUserAgent, Debug = False, unstableOperations = []\<rparr>"

definition SetUnstableOperationEnabled :: "Configuration \<Rightarrow> string \<Rightarrow> bool \<Rightarrow> Configuration" where
  "SetUnstableOperationEnabled c operation enabled =
     c\<lparr>unstableOperations := AList.update operation enabled (unstableOperations c)\<rparr>"

text \<open>Lines 178 to 185: the configuration of the V1 client.\<close>

definition configurationV1 :: "env \<Rightarrow> Configuration option" where
  "configurationV1 e = do {
     let configV1 = NewConfiguration (userAgentV1 e);
     let configV1 = SetUnstableOperationEnabled configV1 ''GetLogsIndex'' True;
     let configV1 = SetUnstableOperationEnabled configV1 ''ListLogIndexes'' True;
     let configV1 = SetUnstableOperationEnabled configV1 ''UpdateLogsIndex'' True;
     let configV1 = SetUnstableOperationEnabled configV1 ''UpdateLogsIndexOrder'' True;
     userAgent \<leftarrow> getUserAgent e (UserAgent configV1);
     Some (configV1\<lparr>UserAgent := userAgent, Debug := IsDebugOrHigher e\<rparr>)
   }"

text \<open>Lines 235 to 237: the configuration of the V2 client.\<close>

definition configurationV2 :: "env \<Rightarrow> Configuration option" where
  "configurationV2 e = do {
     let configV2 = NewConfiguration (userAgentV2 e);
     userAgent \<leftarrow> getUserAgent e (UserAgent configV2);
     Some (configV2\<lparr>UserAgent := userAgent, Debug := IsDebugOrHigher e\<rparr>)
   }"

text \<open>
  Lines 203 to 208 and 215: the host of the IP ranges service, from the host name of the
  parsed URL (the value of \<^verbatim>\<open>parsedApiUrl.Hostname()\<close>).
\<close>

definition ipRangesDNSName :: "string \<Rightarrow> string" where
  "ipRangesDNSName hostname =
     (let ipRangesDNSNameArr = strings_Split hostname CHR ''.'';
          ipRangesDNSNameArr =
            (if length ipRangesDNSNameArr > 2 then drop 1 ipRangesDNSNameArr
             else ipRangesDNSNameArr);
          ipRangesDNSNameArr = baseIpRangesSubdomain # ipRangesDNSNameArr
      in strings_Join ipRangesDNSNameArr ''.'')"

text \<open>
  Lines 186 to 218: with an \<^verbatim>\<open>api_url\<close>, the V1 context selects server 1 with the
  host and scheme of the parsed URL, and routes the IP ranges operation to its own host.
\<close>

definition serverOverrideV1 :: "env \<Rightarrow> string \<Rightarrow> Context \<Rightarrow> error + Context" where
  "serverOverrideV1 e apiURL authV1 =
     (if apiURL \<noteq> [] then
        (case url_Parse e apiURL of
           Inl parseErr \<Rightarrow> Inl (MalformedEndpoint parseErr)
         | Inr parsedApiUrl \<Rightarrow>
             if Host parsedApiUrl = [] \<or> Scheme parsedApiUrl = []
             then Inl (IncompleteEndpoint apiURL)
             else
               (let authV1 = context_WithValue authV1 ContextServerIndex (ServerIndex 1);
                    authV1 = context_WithValue authV1 ContextServerVariables
                      (ServerVariables [(''name'', Host parsedApiUrl),
                                        (''protocol'', Scheme parsedApiUrl)]);
                    authV1 = context_WithValue authV1 ContextOperationServerIndices
                      (OperationServerIndices [(''IPRangesApiService.GetIPRanges'', 1)]);
                    authV1 = context_WithValue authV1 ContextOperationServerVariables
                      (OperationServerVariables
                         [(''IPRangesApiService.GetIPRanges'',
                           [(''name'', ipRangesDNSName (Hostname parsedApiUrl))])])
                in Inr authV1))
      else Inr authV1)"

text \<open>Lines 238 to 252: the same for the V2 context, without a table for single operations.\<close>

definition serverOverrideV2 :: "env \<Rightarrow> string \<Rightarrow> Context \<Rightarrow> error + Context" where
  "serverOverrideV2 e apiURL authV2 =
     (if apiURL \<noteq> [] then
        (case url_Parse e apiURL of
           Inl parseErr \<Rightarrow> Inl (MalformedEndpoint parseErr)
         | Inr parsedApiUrl \<Rightarrow>
             if Host parsedApiUrl = [] \<or> Scheme parsedApiUrl = []
             then Inl (IncompleteEndpoint apiURL)
             else
               (let authV2 = context_WithValue authV2 ContextServerIndex (ServerIndex 1);
                    authV2 = context_WithValue authV2 ContextServerVariables
                      (ServerVariables [(''name'', Host parsedApiUrl),
                                        (''protocol'', Scheme parsedApiUrl)])
                in Inr authV2))
      else Inr authV2)"

text \<open>Lines 166 to 177 and 223 to 234: the context that carries the two keys.\<close>

definition authContext :: "ResourceData \<Rightarrow> Context" where
  "authContext d =
     context_WithValue context_Background ContextAPIKeys
       (APIKeys [(''apiKeyAuth'', api_key d), (''appKeyAuth'', app_key d)])"

text \<open>
  The whole function. The result is the returned pair (an error, or the configuration)
  with the trace of effects. \<open>None\<close> would be a \<^verbatim>\<open>Sprintf\<close> outside the fragment of
  \<open>fmt_Sprintf\<close>; lemma \<open>providerConfigure_returns\<close> shows that there is none.
\<close>

definition providerConfigure ::
    "env \<Rightarrow> ResourceData \<Rightarrow> ((error + ProviderConfiguration) \<times> event list) option" where
  "providerConfigure e d =
     (if validate d \<and> (api_key d = [] \<or> app_key d = []) then Some (Inl MissingCredentials, [])
      else do {
        communityClient \<leftarrow> communityClientOf e d;
        let (checked, tr) = validateKeys e communityClient (validate d);
        case checked of
          Inl err \<Rightarrow> Some (Inl err, tr)
        | Inr _ \<Rightarrow> do {
            configV1 \<leftarrow> configurationV1 e;
            case serverOverrideV1 e (api_url d) (authContext d) of
              Inl err \<Rightarrow> Some (Inl err, tr)
            | Inr authV1 \<Rightarrow> do {
                configV2 \<leftarrow> configurationV2 e;
                case serverOverrideV2 e (api_url d) (authContext d) of
                  Inl err \<Rightarrow> Some (Inl err, tr)
                | Inr authV2 \<Rightarrow>
                    Some (Inr \<lparr>CommunityClient = communityClient,
                               DatadogClientV1 = configV1,
                               DatadogClientV2 = configV2,
                               AuthV1 = authV1,
                               AuthV2 = authV2\<rparr>, tr)
              }
          }
      })"

text \<open>
  The error that lines 186 to 193 return for an \<^verbatim>\<open>api_url\<close>, if any: none for the empty
  string, the parse error, or the missing host or scheme.
\<close>

definition endpointError :: "env \<Rightarrow> string \<Rightarrow> error option" where
  "endpointError e apiURL =
     (if apiURL = [] then None
      else (case url_Parse e apiURL of
              Inl parseErr \<Rightarrow> Some (MalformedEndpoint parseErr)
            | Inr parsedApiUrl \<Rightarrow>
                if Host parsedApiUrl = [] \<or> Scheme parsedApiUrl = []
                then Some (IncompleteEndpoint apiURL)
                else None))"

text \<open>The \<^verbatim>\<open>User-Agent\<close> header that the legacy client of a configuration sends.\<close>

definition communityUserAgent :: "ProviderConfiguration \<Rightarrow> string option" where
  "communityUserAgent r = map_of (ExtraHeader (CommunityClient r)) ''User-Agent''"

section \<open>A concrete environment\<close>

text \<open>
  An environment to run the functions in. Its parser answers the URLs used below as
  \<^verbatim>\<open>url.Parse\<close> does: a URL of the form scheme://host gives that scheme and host; the
  text \<^verbatim>\<open>api.example.com\<close> has no scheme, so it is all path and the host is empty too;
  \<^verbatim>\<open>://api.example.com\<close> is refused for its missing scheme, and so is the same
  text followed by \<^verbatim>\<open>#x\<close>, where the error names the text before the fragment, which
  is the part \<^verbatim>\<open>url.Parse\<close> hands to its parser. No other text is parsed below; the
  table answers each as a missing scheme.

  \<^verbatim>\<open>Validate()\<close> on a client whose base URL does not begin with \<^verbatim>\<open>https://\<close>
  returns an error, as the HTTP client refuses a request without a scheme (the text is the
  cause it reports, without the request it puts in front); on the other base URLs the
  remote service accepts one pair of keys.
\<close>

definition sample_Parse :: "string \<Rightarrow> string + URL" where
  "sample_Parse rawURL =
     (if rawURL = ''https://api.datadoghq.com''
        then Inr \<lparr>Scheme = ''https'', Host = ''api.datadoghq.com''\<rparr>
      else if rawURL = ''https://app.us5.datadoghq.com''
        then Inr \<lparr>Scheme = ''https'', Host = ''app.us5.datadoghq.com''\<rparr>
      else if rawURL = ''https://api.example.com:8080''
        then Inr \<lparr>Scheme = ''https'', Host = ''api.example.com:8080''\<rparr>
      else if rawURL = ''api.example.com''
        then Inr \<lparr>Scheme = [], Host = []\<rparr>
      else if rawURL = ''://api.example.com'' \<or> rawURL = ''://api.example.com#x''
        then Inl (''parse '' @ [CHR 0x22] @ ''://api.example.com'' @ [CHR 0x22]
                  @ '': missing protocol scheme'')
      else Inl (''parse '' @ [CHR 0x22] @ rawURL @ [CHR 0x22] @ '': missing protocol scheme''))"

definition sample_env :: env where
  "sample_env =
     \<lparr>url_Parse = sample_Parse,
      Validate = (\<lambda>c.
        if strings_HasPrefix (baseUrl c) ''https://''
        then (client_apiKey c = ''0123456789abcdef'' \<and> client_appKey c = ''fedcba9876543210'',
              None)
        else (False, Some (''unsupported protocol scheme '' @ [CHR 0x22, CHR 0x22]))),
      ProviderVersion = ''2.13.0'',
      SDKVersionString = ''1.15.0'',
      TerraformVersion = ''0.13.4'',
      runtime_Version = ''go1.15.2'',
      GOOS = ''linux'',
      GOARCH = ''amd64'',
      defaultBaseUrl = ''https://api.datadoghq.com'',
      userAgentV1 = ''datadog-api-client-go/1.0.0-beta.9 (go go1.15.2; os linux; arch amd64)'',
      userAgentV2 = ''datadog-api-client-go/1.0.0-beta.9 (go go1.15.2; os linux; arch amd64)'',
      IsDebugOrHigher = False\<rparr>"

definition sample_input :: "string \<Rightarrow> bool \<Rightarrow> ResourceData" where
  "sample_input apiURL validating =
     \<lparr>api_key = ''0123456789abcdef'', app_key = ''fedcba9876543210'',
      api_url = apiURL, validate = validating\<rparr>"

section \<open>Auxiliary facts\<close>

lemma fmt_Sprintf_literal:
  "CHR ''%'' \<notin> set p \<Longrightarrow> fmt_Sprintf (p @ f) args = map_option ((@) p) (fmt_Sprintf f args)"
proof (induction p)
  case Nil
  show ?case by (simp add: option.map_ident)
next
  case (Cons c p)
  then have c: "c \<noteq> CHR ''%''" and IH: "fmt_Sprintf (p @ f) args = map_option ((@) p) (fmt_Sprintf f args)"
    by auto
  show ?case
  proof (cases "p @ f")
    case Nil
    then show ?thesis using c by (simp add: option.map_comp comp_def)
  next
    case (Cons v rest)
    then have "fmt_Sprintf ((c # p) @ f) args = map_option ((#) c) (fmt_Sprintf (p @ f) args)"
      using c by simp
    then show ?thesis using IH by (simp add: option.map_comp comp_def)
  qed
qed

lemma getUserAgent_Some:
  "getUserAgent e c = Some (''terraform-provider-datadog/'' @ ProviderVersion e @ '' (terraform '' @ SDKVersionString e
      @ ''; terraform-cli '' @ TerraformVersion e @ '') '' @ c)"
  by (simp add: getUserAgent_def)

lemma communityClientOf_Some:
  "communityClientOf e d =
     Some \<lparr>client_apiKey = api_key d, client_appKey = app_key d,
           baseUrl = (if api_url d \<noteq> [] then api_url d else defaultBaseUrl e),
           ExtraHeader = [(''User-Agent'',
             ''terraform-provider-datadog/'' @ ProviderVersion e @ '' (terraform '' @ SDKVersionString e
               @ ''; terraform-cli '' @ TerraformVersion e @ '') ''
               @ ''datadog-api-client-go/go-datadog-api (go '' @ runtime_Version e @ ''; os '' @ GOOS e
               @ ''; arch '' @ GOARCH e @ '')'')]\<rparr>"
  by (simp add: communityClientOf_def getUserAgent_Some NewClient_def SetBaseUrl_def)

lemma configurationV1_Some:
  "configurationV1 e =
     Some \<lparr>UserAgent = ''terraform-provider-datadog/'' @ ProviderVersion e @ '' (terraform '' @ SDKVersionString e
               @ ''; terraform-cli '' @ TerraformVersion e @ '') '' @ userAgentV1 e,
           Debug = IsDebugOrHigher e,
           unstableOperations = [(''GetLogsIndex'', True), (''ListLogIndexes'', True),
              (''UpdateLogsIndex'', True), (''UpdateLogsIndexOrder'', True)]\<rparr>"
  by (simp add: configurationV1_def getUserAgent_Some NewConfiguration_def SetUnstableOperationEnabled_def)

lemma configurationV2_Some:
  "configurationV2 e =
     Some \<lparr>UserAgent = ''terraform-provider-datadog/'' @ ProviderVersion e @ '' (terraform '' @ SDKVersionString e
               @ ''; terraform-cli '' @ TerraformVersion e @ '') '' @ userAgentV2 e,
           Debug = IsDebugOrHigher e,
           unstableOperations = []\<rparr>"
  by (simp add: configurationV2_def getUserAgent_Some NewConfiguration_def)

lemma validateKeys_skip:
  "validateKeys e c False =
     (Inr (), [LogLine ''[INFO] Skipping key validation (validate = false)'',
               LogLine ''[INFO] Datadog Client successfully validated.''])"
  by (simp add: validateKeys_def)

lemma validateKeys_calls:
  "networkCalls (snd (validateKeys e c v)) = (if v then 1 else 0)"
  by (simp add: validateKeys_def networkCalls_def Let_def split: prod.splits option.splits)

lemma validateKeys_call_event:
  "v \<Longrightarrow> ValidateCall (baseUrl c) \<in> set (snd (validateKeys e c v))"
  by (simp add: validateKeys_def Let_def split: prod.splits option.splits)

lemma validateKeys_Inr:
  "fst (validateKeys e c v) = Inr () \<longleftrightarrow> (v \<longrightarrow> Validate e c = (True, None))"
  by (auto simp add: validateKeys_def Let_def split: prod.splits option.splits)

lemma validateKeys_Inl:
  "fst (validateKeys e c v) = Inl err \<Longrightarrow>
     err = InvalidCredentials \<or> (\<exists>t. err = ValidationTransportError t)"
  by (auto simp add: validateKeys_def Let_def split: prod.splits option.splits if_splits)

lemma serverOverrideV1_error:
  "serverOverrideV1 e apiURL ctx = Inl err \<longleftrightarrow> endpointError e apiURL = Some err"
  by (auto simp add: serverOverrideV1_def endpointError_def Let_def split: sum.splits if_splits)

lemma serverOverrideV2_error:
  "serverOverrideV2 e apiURL ctx = Inl err \<longleftrightarrow> endpointError e apiURL = Some err"
  by (auto simp add: serverOverrideV2_def endpointError_def Let_def split: sum.splits if_splits)

lemma providerConfigure_returns: "\<exists>res tr. providerConfigure e d = Some (res, tr)"
  by (simp add: providerConfigure_def communityClientOf_Some configurationV1_Some
      configurationV2_Some split: prod.splits sum.splits)

lemma providerConfigure_success:
  assumes "providerConfigure e d = Some (Inr r, tr)"
  shows "communityClientOf e d = Some (CommunityClient r)"
    and "configurationV1 e = Some (DatadogClientV1 r)"
    and "configurationV2 e = Some (DatadogClientV2 r)"
    and "serverOverrideV1 e (api_url d) (authContext d) = Inr (AuthV1 r)"
    and "serverOverrideV2 e (api_url d) (authContext d) = Inr (AuthV2 r)"
  using assms
  by (auto simp add: providerConfigure_def communityClientOf_Some configurationV1_Some
      configurationV2_Some split: if_splits prod.splits sum.splits)

lemma serverOverrideV1_Inr:
  assumes "serverOverrideV1 e apiURL ctx = Inr a" and "apiURL \<noteq> []"
  shows "\<exists>u. url_Parse e apiURL = Inr u \<and> Host u \<noteq> [] \<and> Scheme u \<noteq> [] \<and>
           a = [(ContextOperationServerVariables,
                 OperationServerVariables
                   [(''IPRangesApiService.GetIPRanges'',
                     [(''name'', ipRangesDNSName (Hostname u))])]),
                (ContextOperationServerIndices,
                 OperationServerIndices [(''IPRangesApiService.GetIPRanges'', 1)]),
                (ContextServerVariables,
                 ServerVariables [(''name'', Host u), (''protocol'', Scheme u)]),
                (ContextServerIndex, ServerIndex 1)] @ ctx"
  using assms
  by (auto simp add: serverOverrideV1_def context_WithValue_def Let_def
      split: sum.splits if_splits)

lemma serverOverrideV2_Inr:
  assumes "serverOverrideV2 e apiURL ctx = Inr a" and "apiURL \<noteq> []"
  shows "\<exists>u. url_Parse e apiURL = Inr u \<and> Host u \<noteq> [] \<and> Scheme u \<noteq> [] \<and>
           a = [(ContextServerVariables,
                 ServerVariables [(''name'', Host u), (''protocol'', Scheme u)]),
                (ContextServerIndex, ServerIndex 1)] @ ctx"
  using assms
  by (auto simp add: serverOverrideV2_def context_WithValue_def Let_def
      split: sum.splits if_splits)

lemma serverOverride_none:
  "serverOverrideV1 e [] ctx = Inr ctx" "serverOverrideV2 e [] ctx = Inr ctx"
  by (simp_all add: serverOverrideV1_def serverOverrideV2_def)

lemma Value_authContext:
  "Value (authContext d) ContextServerIndex = None"
  "Value (authContext d) ContextServerVariables = None"
  "Value (authContext d) ContextOperationServerIndices = None"
  "Value (authContext d) ContextOperationServerVariables = None"
  by (simp_all add: Value_def authContext_def context_WithValue_def context_Background_def)

lemma getUserAgent_inject:
  "getUserAgent e a = getUserAgent e b \<longleftrightarrow> a = b"
  by (simp add: getUserAgent_Some)

lemma communityClientOf_header:
  assumes "communityClientOf e d = Some c"
  shows "map_of (ExtraHeader c) ''User-Agent'' =
           getUserAgent e (''datadog-api-client-go/go-datadog-api (go '' @ runtime_Version e
                            @ ''; os '' @ GOOS e @ ''; arch '' @ GOARCH e @ '')'')"
  using assms by (auto simp add: communityClientOf_Some getUserAgent_Some)

lemma configurationV1_agent:
  assumes "configurationV1 e = Some c"
  shows "Some (UserAgent c) = getUserAgent e (userAgentV1 e)"
  using assms by (auto simp add: configurationV1_Some getUserAgent_Some)

lemma configurationV2_agent:
  assumes "configurationV2 e = Some c"
  shows "Some (UserAgent c) = getUserAgent e (userAgentV2 e)"
  using assms by (auto simp add: configurationV2_Some getUserAgent_Some)

lemma strings_Split_no_sep: "sep \<notin> set l \<Longrightarrow> strings_Split l sep = [l]"
  by (induction l) auto

lemma strings_Split_append:
  "sep \<notin> set l \<Longrightarrow> strings_Split (l @ sep # rest) sep = l # strings_Split rest sep"
  by (induction l) auto

lemma strings_Split_Join:
  assumes "labels \<noteq> []" and "\<forall>l \<in> set labels. sep \<notin> set l"
  shows "strings_Split (strings_Join labels [sep]) sep = labels"
  using assms
proof (induction labels "[sep]" rule: strings_Join.induct)
  case 1
  then show ?case by simp
next
  case (2 w)
  then show ?case by (simp add: strings_Split_no_sep)
next
  case (3 w v ws)
  then show ?case by (simp add: strings_Split_append)
qed

lemma strings_Split_nonempty: "strings_Split s sep \<noteq> []"
  by (induction s) (auto split: list.splits)

lemma strings_Split_chars:
  "w \<in> set (strings_Split s sep) \<Longrightarrow> x \<in> set w \<Longrightarrow> x \<in> set s"
proof (induction s arbitrary: w)
  case Nil
  then show ?case by simp
next
  case (Cons c cs)
  show ?case
  proof (cases "c = sep")
    case True
    then have "w = [] \<or> w \<in> set (strings_Split cs sep)" using Cons.prems(1) by auto
    then show ?thesis using Cons.IH Cons.prems(2) by auto
  next
    case False
    obtain v vs where sp: "strings_Split cs sep = v # vs"
      using strings_Split_nonempty [of cs sep] by (cases "strings_Split cs sep") auto
    then have "w = c # v \<or> w \<in> set vs" using False Cons.prems(1) by auto
    then show ?thesis
    proof
      assume "w = c # v"
      then have "x = c \<or> x \<in> set v" using Cons.prems(2) by auto
      moreover have "v \<in> set (strings_Split cs sep)" using sp by simp
      ultimately show ?thesis using Cons.IH by auto
    next
      assume "w \<in> set vs"
      then have "w \<in> set (strings_Split cs sep)" using sp by simp
      then show ?thesis using Cons.IH Cons.prems(2) by auto
    qed
  qed
qed

lemma strings_Join_chars:
  "x \<in> set (strings_Join ws sep) \<Longrightarrow> x \<in> set sep \<or> (\<exists>w \<in> set ws. x \<in> set w)"
  by (induction ws sep rule: strings_Join.induct) auto

lemma ipRangesDNSName_chars:
  assumes "x \<in> set (ipRangesDNSName h)"
  shows "x \<in> set h \<or> x \<in> set ''ip-ranges.''"
proof -
  define ls where "ls = strings_Split h CHR ''.''"
  define ms where "ms = (if length ls > 2 then drop 1 ls else ls)"
  have name: "ipRangesDNSName h = strings_Join (''ip-ranges'' # ms) ''.''"
    by (simp add: ipRangesDNSName_def ls_def ms_def baseIpRangesSubdomain_def Let_def)
  have sub: "\<And>w. w \<in> set ms \<Longrightarrow> w \<in> set ls"
    by (auto simp add: ms_def dest: in_set_dropD split: if_splits)
  from assms name have "x \<in> set ''.'' \<or> (\<exists>w \<in> set (''ip-ranges'' # ms). x \<in> set w)"
    using strings_Join_chars [of x "''ip-ranges'' # ms" "''.''"] by simp
  then consider "x \<in> set ''.''" | "x \<in> set ''ip-ranges''" | w where "w \<in> set ms" "x \<in> set w"
    by auto
  then show ?thesis
  proof cases
    case 1
    then show ?thesis by simp
  next
    case 2
    then show ?thesis by auto
  next
    case 3
    then have "w \<in> set (strings_Split h CHR ''.'')" using sub by (simp add: ls_def)
    then have "x \<in> set h" using 3(2) by (rule strings_Split_chars)
    then show ?thesis by simp
  qed
qed

lemma strings_LastIndexByte_none: "c \<notin> set s \<Longrightarrow> strings_LastIndexByte s c = None"
  by (induction s) auto

lemma strings_LastIndexByte_last:
  "c \<notin> set p \<Longrightarrow> strings_LastIndexByte (h @ c # p) c = Some (length h)"
  by (induction h) (simp_all add: strings_LastIndexByte_none)

lemma digits_no_colon:
  "list_all (\<lambda>b. b \<in> set ''0123456789'') port \<Longrightarrow> CHR '':'' \<notin> set port"
  by (induction port) auto

lemma if_pair: "(if c then (a, p) else (b, p)) = (if c then a else b, p)"
  by simp

lemma splitHostPort_port:
  assumes "list_all (\<lambda>b. b \<in> set ''0123456789'') port"
  shows "splitHostPort (h @ '':'' @ port) =
           (if strings_HasPrefix h ''['' \<and> strings_HasSuffix h '']''
            then take (length h - 2) (drop 1 h) else h, port)"
proof -
  have app: "h @ '':'' @ port = h @ CHR '':'' # port" by simp
  have idx: "strings_LastIndexByte (h @ CHR '':'' # port) CHR '':'' = Some (length h)"
    using digits_no_colon [OF assms] by (rule strings_LastIndexByte_last)
  have ok: "validOptionalPort (CHR '':'' # port)"
    using assms by (simp only: validOptionalPort_def list.case simp_thms)
  have parts: "drop (length h) (h @ CHR '':'' # port) = CHR '':'' # port"
    "take (length h) (h @ CHR '':'' # port) = h"
    "drop (Suc (length h)) (h @ CHR '':'' # port) = port"
    by simp_all
  have "splitHostPort (h @ CHR '':'' # port) =
          (case (h, port) of (host, port) \<Rightarrow>
             if strings_HasPrefix host ''['' \<and> strings_HasSuffix host '']''
             then (take (length host - 2) (drop 1 host), port)
             else (host, port))"
    unfolding splitHostPort_def
    by (simp only: idx option.case parts ok if_True Let_def)
  then show ?thesis
    unfolding app prod.case by (simp only: if_pair)
qed

lemma Value_override_V1:
  assumes "serverOverrideV1 e apiURL (authContext d) = Inr a" and "apiURL \<noteq> []"
  shows "\<exists>u. url_Parse e apiURL = Inr u \<and> Host u \<noteq> [] \<and> Scheme u \<noteq> []
     \<and> Value a ContextServerIndex = Some (ServerIndex 1)
     \<and> Value a ContextServerVariables
          = Some (ServerVariables [(''name'', Host u), (''protocol'', Scheme u)])
     \<and> Value a ContextOperationServerIndices
          = Some (OperationServerIndices [(''IPRangesApiService.GetIPRanges'', 1)])
     \<and> Value a ContextOperationServerVariables
          = Some (OperationServerVariables
                    [(''IPRangesApiService.GetIPRanges'',
                      [(''name'', ipRangesDNSName (Hostname u))])])"
  using serverOverrideV1_Inr [OF assms] by (auto simp add: Value_def)

lemma Value_override_V2:
  assumes "serverOverrideV2 e apiURL (authContext d) = Inr a" and "apiURL \<noteq> []"
  shows "\<exists>u. url_Parse e apiURL = Inr u \<and> Host u \<noteq> [] \<and> Scheme u \<noteq> []
     \<and> Value a ContextServerIndex = Some (ServerIndex 1)
     \<and> Value a ContextServerVariables
          = Some (ServerVariables [(''name'', Host u), (''protocol'', Scheme u)])
     \<and> Value a ContextOperationServerIndices = None
     \<and> Value a ContextOperationServerVariables = None"
  using serverOverrideV2_Inr [OF assms]
  by (auto simp add: Value_def authContext_def context_WithValue_def context_Background_def)

lemma sample_run:
  "apiURL = ''https://api.datadoghq.com'' \<or> apiURL = ''https://app.us5.datadoghq.com''
     \<or> apiURL = ''https://api.example.com:8080'' \<Longrightarrow>
   \<exists>r tr. providerConfigure sample_env (sample_input apiURL False) = Some (Inr r, tr)"
  by (auto simp add: providerConfigure_def communityClientOf_Some configurationV1_Some
      configurationV2_Some validateKeys_skip serverOverrideV1_def serverOverrideV2_def
      sample_input_def sample_env_def sample_Parse_def)

text \<open>
  \<^verbatim>\<open>translateClientError\<close> with a context message that holds no \<^verbatim>\<open>%\<close>: the
  message (or \<^verbatim>\<open>an error occurred\<close> for the empty one) is followed by the text of the
  error and, for the error of an API client, by its body.
\<close>

lemma translateClientError_plain:
  assumes "CHR ''%'' \<notin> set msg"
  shows "translateClientError (V1GenericOpenAPIError text body) msg
           = Some ((if msg = [] then ''an error occurred'' else msg) @ '': '' @ text @ '': '' @ body)"
    and "translateClientError (V2GenericOpenAPIError text body) msg
           = Some ((if msg = [] then ''an error occurred'' else msg) @ '': '' @ text @ '': '' @ body)"
    and "translateClientError (UrlError text) msg
           = Some ((if msg = [] then ''an error occurred'' else msg) @ '' (url.Error): '' @ text)"
    and "translateClientError (OtherError text) msg
           = Some ((if msg = [] then ''an error occurred'' else msg) @ '': '' @ text)"
proof -
  have ctx: "CHR ''%'' \<notin> set (if msg = [] then ''an error occurred'' else msg)"
    using assms by simp
  show "translateClientError (V1GenericOpenAPIError text body) msg
           = Some ((if msg = [] then ''an error occurred'' else msg) @ '': '' @ text @ '': '' @ body)"
    unfolding translateClientError_def Let_def go_error.case
    by (simp only: fmt_Sprintf_literal [OF ctx] Error.simps) simp
  show "translateClientError (V2GenericOpenAPIError text body) msg
           = Some ((if msg = [] then ''an error occurred'' else msg) @ '': '' @ text @ '': '' @ body)"
    unfolding translateClientError_def Let_def go_error.case
    by (simp only: fmt_Sprintf_literal [OF ctx] Error.simps) simp
  show "translateClientError (UrlError text) msg
           = Some ((if msg = [] then ''an error occurred'' else msg) @ '' (url.Error): '' @ text)"
    unfolding translateClientError_def Let_def go_error.case
    by (simp only: fmt_Sprintf_literal [OF ctx] Error.simps) simp
  show "translateClientError (OtherError text) msg
           = Some ((if msg = [] then ''an error occurred'' else msg) @ '': '' @ text)"
    unfolding translateClientError_def Let_def go_error.case
    by (simp only: fmt_Sprintf_literal [OF ctx] Error.simps) simp
qed

lemma strings_HasPrefix_iff: "strings_HasPrefix s p \<longleftrightarrow> (\<exists>q. s = p @ q)"
  by (induction s p rule: strings_HasPrefix.induct) auto

lemma strings_Contains_iff: "strings_Contains s sub \<longleftrightarrow> (\<exists>p q. s = p @ sub @ q)"
proof (induction s)
  case Nil
  then show ?case by auto
next
  case (Cons c cs)
  show ?case
  proof
    assume "strings_Contains (c # cs) sub"
    then consider "strings_HasPrefix (c # cs) sub" | "strings_Contains cs sub" by auto
    then show "\<exists>p q. c # cs = p @ sub @ q"
    proof cases
      case 1
      then obtain q where "c # cs = sub @ q" by (auto simp add: strings_HasPrefix_iff)
      then have "c # cs = [] @ sub @ q" by simp
      then show ?thesis by blast
    next
      case 2
      then obtain p q where "cs = p @ sub @ q" using Cons.IH by auto
      then have "c # cs = (c # p) @ sub @ q" by simp
      then show ?thesis by blast
    qed
  next
    assume "\<exists>p q. c # cs = p @ sub @ q"
    then obtain p q where pq: "c # cs = p @ sub @ q" by auto
    show "strings_Contains (c # cs) sub"
    proof (cases p)
      case Nil
      then have "strings_HasPrefix (c # cs) sub" using pq by (auto simp add: strings_HasPrefix_iff)
      then show ?thesis by simp
    next
      case (Cons x p')
      then have "cs = p' @ sub @ q" using pq by simp
      then have "strings_Contains cs sub" using Cons.IH by blast
      then show ?thesis by simp
    qed
  qed
qed

lemma strings_Contains_append:
  "strings_Contains s sub \<Longrightarrow> strings_Contains (p @ s) sub"
proof -
  assume "strings_Contains s sub"
  then obtain a b where "s = a @ sub @ b" by (auto simp add: strings_Contains_iff)
  then have "p @ s = (p @ a) @ sub @ b" by simp
  then show ?thesis unfolding strings_Contains_iff by blast
qed


lemma validateKeys_result:
  "fst (validateKeys e c True) =
     (case Validate e c of
        (ok, Some verr) \<Rightarrow> Inl (ValidationTransportError verr)
      | (ok, None) \<Rightarrow> if ok then Inr () else Inl InvalidCredentials)"
  by (simp add: validateKeys_def Let_def split: prod.splits option.splits)

section \<open>The order of validation and endpoint parsing\<close>

text \<open>
  Claim C1, as the code has it. The claim puts the parsing of \<^verbatim>\<open>api_url\<close> before
  the check of the keys; \<^verbatim>\<open>providerConfigure\<close> checks the keys first (lines 127 to
  129 and 149 to 162) and parses afterwards (lines 186 to 193). For every input whose
  \<^verbatim>\<open>api_url\<close> is refused by the parser or lacks a host or a scheme, the bootstrap
  fails, and
  \<^item> with \<^verbatim>\<open>validate = false\<close> it fails with the endpoint error, and
    \<^verbatim>\<open>Validate()\<close> is not called;
  \<^item> with \<^verbatim>\<open>validate = true\<close> and an empty key it fails with \<open>MissingCredentials\<close>,
    and \<^verbatim>\<open>Validate()\<close> is not called;
  \<^item> with \<^verbatim>\<open>validate = true\<close> and both keys set, \<^verbatim>\<open>Validate()\<close> is called on
    the legacy client, whose base URL is the \<^verbatim>\<open>api_url\<close> as given, before the URL is
    parsed; the bootstrap fails with the error of that call if it returns one, with
    \<open>InvalidCredentials\<close> if it reports the keys as not accepted, and with the endpoint
    error only if it accepts them.
\<close>

theorem C1_validation_precedes_endpoint:
  assumes "endpointError e (api_url d) = Some err"
  shows "\<exists>res tr c. providerConfigure e d = Some (res, tr)
           \<and> communityClientOf e d = Some c \<and> baseUrl c = api_url d
           \<and> isl res
           \<and> (\<not> validate d \<longrightarrow> res = Inl err \<and> networkCalls tr = 0)
           \<and> (validate d \<and> (api_key d = [] \<or> app_key d = []) \<longrightarrow>
                  res = Inl MissingCredentials \<and> networkCalls tr = 0)
           \<and> (validate d \<and> api_key d \<noteq> [] \<and> app_key d \<noteq> [] \<longrightarrow>
                  ValidateCall (api_url d) \<in> set tr
                  \<and> res = (case Validate e c of
                             (ok, Some verr) \<Rightarrow> Inl (ValidationTransportError verr)
                           | (ok, None) \<Rightarrow> if ok then Inl err else Inl InvalidCredentials))"
proof -
  from assms have url: "api_url d \<noteq> []"
    by (auto simp add: endpointError_def)
  obtain c where c: "communityClientOf e d = Some c" and base: "baseUrl c = api_url d"
    using url by (simp add: communityClientOf_Some)
  from assms have v1: "serverOverrideV1 e (api_url d) (authContext d) = Inl err"
    by (simp add: serverOverrideV1_error)
  show ?thesis
  proof (cases "validate d")
    case False
    then have "providerConfigure e d
                 = Some (Inl err, snd (validateKeys e c False))"
      using c v1 by (simp add: providerConfigure_def configurationV1_Some validateKeys_skip)
    moreover have "networkCalls (snd (validateKeys e c False)) = 0"
      by (simp add: validateKeys_calls)
    ultimately show ?thesis using False c base by auto
  next
    case True
    show ?thesis
    proof (cases "api_key d = [] \<or> app_key d = []")
      case empty: True
      then have "providerConfigure e d = Some (Inl MissingCredentials, [])"
        using True by (simp add: providerConfigure_def)
      then show ?thesis using True empty c base by (auto simp add: networkCalls_def)
    next
      case keys: False
      obtain chk tr where vk: "validateKeys e c True = (chk, tr)"
        by (cases "validateKeys e c True")
      have ev: "ValidateCall (api_url d) \<in> set tr"
        using validateKeys_call_event [of True c e] vk base by simp
      have chk: "chk = (case Validate e c of
                          (ok, Some verr) \<Rightarrow> Inl (ValidationTransportError verr)
                        | (ok, None) \<Rightarrow> if ok then Inr () else Inl InvalidCredentials)"
        using validateKeys_result [of e c] vk by simp
      have res: "providerConfigure e d =
              Some (case chk of Inl verr \<Rightarrow> Inl verr | Inr u \<Rightarrow> Inl err, tr)"
        using True keys c vk v1
        by (cases chk) (simp_all add: providerConfigure_def configurationV1_Some)
      have val: "(case chk of Inl verr \<Rightarrow> Inl verr | Inr u \<Rightarrow> Inl err)
                   = (case Validate e c of
                        (ok, Some verr) \<Rightarrow> Inl (ValidationTransportError verr)
                      | (ok, None) \<Rightarrow> if ok then Inl err else Inl InvalidCredentials)"
        unfolding chk by (simp split: prod.splits option.splits)
      have "isl (case chk of Inl verr \<Rightarrow> Inl verr | Inr u \<Rightarrow> (Inl err :: error + ProviderConfiguration))"
        by (cases chk) simp_all
      then show ?thesis using res val ev True keys c base by auto
    qed
  qed
qed

text \<open>
  The theorem at an \<^verbatim>\<open>api_url\<close> without a scheme, with both keys set: without
  validation the bootstrap fails on the URL; with validation \<^verbatim>\<open>Validate()\<close> is called
  on a client with that base URL, and its error ends the bootstrap.
\<close>

theorem C1_validation_precedes_endpoint_witness:
  "(\<exists>tr. providerConfigure sample_env (sample_input ''api.example.com'' False)
           = Some (Inl (IncompleteEndpoint ''api.example.com''), tr)
         \<and> networkCalls tr = 0)
   \<and> (\<exists>tr verr. providerConfigure sample_env (sample_input ''api.example.com'' True)
           = Some (Inl (ValidationTransportError verr), tr)
         \<and> ValidateCall ''api.example.com'' \<in> set tr)"
proof -
  have ee: "endpointError sample_env (api_url (sample_input ''api.example.com'' v))
              = Some (IncompleteEndpoint ''api.example.com'')" for v
    by (simp add: endpointError_def sample_env_def sample_Parse_def sample_input_def)
  have val: "communityClientOf sample_env (sample_input ''api.example.com'' True) = Some c
              \<Longrightarrow> Validate sample_env c
                    = (False, Some (''unsupported protocol scheme '' @ [CHR 0x22, CHR 0x22]))" for c
    by (auto simp add: communityClientOf_Some sample_env_def sample_input_def)
  have a: "\<exists>tr. providerConfigure sample_env (sample_input ''api.example.com'' False)
           = Some (Inl (IncompleteEndpoint ''api.example.com''), tr)
         \<and> networkCalls tr = 0"
    using C1_validation_precedes_endpoint [OF ee [of False]]
    by (auto simp add: sample_input_def)
  have b: "\<exists>tr verr. providerConfigure sample_env (sample_input ''api.example.com'' True)
           = Some (Inl (ValidationTransportError verr), tr)
         \<and> ValidateCall ''api.example.com'' \<in> set tr"
    using C1_validation_precedes_endpoint [OF ee [of True]] val
    by (auto simp add: sample_input_def)
  from a b show ?thesis by blast
qed

text \<open>
  Claim C1 as it is written fails at the same \<^verbatim>\<open>api_url\<close> with validation and an
  empty \<^verbatim>\<open>api_key\<close>: the URL lacks host and scheme, and the bootstrap fails at line 128
  with \<open>MissingCredentials\<close>, not with the endpoint error.
\<close>

theorem C1_endpoint_first_counterexample:
  "endpointError sample_env ''api.example.com'' = Some (IncompleteEndpoint ''api.example.com'')
   \<and> providerConfigure sample_env
        \<lparr>api_key = [], app_key = ''fedcba9876543210'',
         api_url = ''api.example.com'', validate = True\<rparr>
       = Some (Inl MissingCredentials, [])
   \<and> MissingCredentials \<noteq> IncompleteEndpoint ''api.example.com''"
  by (simp add: providerConfigure_def endpointError_def sample_env_def sample_Parse_def)

section \<open>The two credential paths\<close>

text \<open>
  Claim C5. With \<^verbatim>\<open>validate = true\<close> and an empty \<^verbatim>\<open>api_key\<close> or
  \<^verbatim>\<open>app_key\<close>, the bootstrap returns the error of line 128 at once: the trace of
  effects is empty, so nothing was logged and no network call was made.
\<close>

theorem C5_missing_credentials:
  assumes "validate d" and "api_key d = [] \<or> app_key d = []"
  shows "providerConfigure e d = Some (Inl MissingCredentials, [])
         \<and> map_option (networkCalls \<circ> snd) (providerConfigure e d) = Some 0
         \<and> error_text MissingCredentials = ''api_key and app_key must be set unless validate = false''"
  using assms by (simp add: providerConfigure_def networkCalls_def)


text \<open>The theorem at an input with an empty \<^verbatim>\<open>app_key\<close>.\<close>

theorem C5_missing_credentials_witness:
  "providerConfigure sample_env
      \<lparr>api_key = ''0123456789abcdef'', app_key = [], api_url = [], validate = True\<rparr>
     = Some (Inl MissingCredentials, [])"
  using C5_missing_credentials [of "\<lparr>api_key = ''0123456789abcdef'', app_key = [], api_url = [], validate = True\<rparr>" sample_env]
  by simp


text \<open>
  Claim C6. With \<^verbatim>\<open>validate = false\<close> the validation step makes no network call and
  succeeds for any client, whatever the keys are (there is no hypothesis on them); the
  bootstrap then makes no network call at all, and its outcome is decided by the
  \<^verbatim>\<open>api_url\<close> alone: the endpoint error if there is one, a configuration otherwise.
\<close>

theorem C6_validation_skipped:
  assumes "\<not> validate d"
  shows "\<exists>res tr. providerConfigure e d = Some (res, tr)
           \<and> networkCalls tr = 0
           \<and> (case endpointError e (api_url d) of
                  Some err \<Rightarrow> res = Inl err
                | None \<Rightarrow> \<not> isl res)
           \<and> fst (validateKeys e c False) = Inr ()
           \<and> networkCalls (snd (validateKeys e c False)) = 0"
proof -
  obtain cl where cl: "communityClientOf e d = Some cl"
    by (simp add: communityClientOf_Some)
  have tr: "networkCalls (snd (validateKeys e cl False)) = 0"
    by (simp add: validateKeys_calls)
  show ?thesis
  proof (cases "endpointError e (api_url d)")
    case None
    then have "\<not> isl (serverOverrideV1 e (api_url d) (authContext d))"
      and "\<not> isl (serverOverrideV2 e (api_url d) (authContext d))"
      using serverOverrideV1_error serverOverrideV2_error
      by (metis isl_def option.distinct(1))+
    then show ?thesis
      using assms cl None tr
      by (auto simp add: providerConfigure_def configurationV1_Some configurationV2_Some
          validateKeys_skip networkCalls_def split: sum.splits)
  next
    case (Some err)
    then have "serverOverrideV1 e (api_url d) (authContext d) = Inl err"
      by (simp add: serverOverrideV1_error)
    then show ?thesis
      using assms cl Some tr
      by (auto simp add: providerConfigure_def configurationV1_Some configurationV2_Some
          validateKeys_skip networkCalls_def split: sum.splits)
  qed
qed

text \<open>The theorem at an input with both keys empty and no \<^verbatim>\<open>api_url\<close>.\<close>

theorem C6_validation_skipped_witness:
  "\<exists>res tr. providerConfigure sample_env
       \<lparr>api_key = [], app_key = [], api_url = [], validate = False\<rparr> = Some (res, tr)
      \<and> networkCalls tr = 0 \<and> \<not> isl res"
  using C6_validation_skipped [where d = "\<lparr>api_key = [], app_key = [], api_url = [], validate = False\<rparr>"
      and e = sample_env and c = "NewClient sample_env [] []"]
  by (auto simp add: endpointError_def)

section \<open>The identity string\<close>

text \<open>
  Claim C9. \<^verbatim>\<open>getUserAgent\<close> returns the hosting tool and its version, then in
  brackets the runtime name with the SDK version and the CLI version (written
  \<^verbatim>\<open>terraform-cli\<close> and the version), then the agent of the wrapped client. The text
  depends on the three version strings and the wrapped agent only: two environments that
  agree on the three give the same text.
\<close>

theorem C9_identity_format:
  "getUserAgent e clientUserAgent =
     Some (''terraform-provider-datadog'' @ ''/'' @ ProviderVersion e
           @ '' ('' @ ''terraform'' @ '' '' @ SDKVersionString e
           @ ''; '' @ ''terraform-cli '' @ TerraformVersion e
           @ '') '' @ clientUserAgent)
   \<and> (ProviderVersion e' = ProviderVersion e \<and> SDKVersionString e' = SDKVersionString e
        \<and> TerraformVersion e' = TerraformVersion e
        \<longrightarrow> getUserAgent e' clientUserAgent = getUserAgent e clientUserAgent)"
  by (simp add: getUserAgent_def)

text \<open>
  The theorem at the sample versions, in an environment that differs from the sample one
  in other fields.
\<close>

theorem C9_identity_format_witness:
  "getUserAgent (sample_env\<lparr>GOOS := ''darwin'', IsDebugOrHigher := True\<rparr>) ''go-datadog-api''
     = Some ''terraform-provider-datadog/2.13.0 (terraform 1.15.0; terraform-cli 0.13.4) go-datadog-api''
   \<and> getUserAgent (sample_env\<lparr>GOOS := ''darwin'', IsDebugOrHigher := True\<rparr>) ''go-datadog-api''
     = getUserAgent sample_env ''go-datadog-api''"
  using C9_identity_format [of sample_env "''go-datadog-api''"
      "sample_env\<lparr>GOOS := ''darwin'', IsDebugOrHigher := True\<rparr>"]
    C9_identity_format [of "sample_env\<lparr>GOOS := ''darwin'', IsDebugOrHigher := True\<rparr>" "''go-datadog-api''" sample_env]
  by (simp add: sample_env_def)

text \<open>
  Claim C2, as the code has it. The claim gives the legacy client and the current clients
  one identical identity string, computed once. \<^verbatim>\<open>providerConfigure\<close> calls
  \<^verbatim>\<open>getUserAgent\<close> once for each client (lines 140, 184 and 236), each time with that
  client's own agent: a text naming \<^verbatim>\<open>go-datadog-api\<close> for the legacy client, the
  default \<^verbatim>\<open>UserAgent\<close> of the configuration for the V1 and the V2 client. So the
  three strings share the part built from the three versions, and two of them are equal
  exactly when the two wrapped agents are.
\<close>

theorem C2_identity_per_client:
  assumes "providerConfigure e d = Some (Inr r, tr)"
  shows "communityUserAgent r =
           getUserAgent e (''datadog-api-client-go/go-datadog-api (go '' @ runtime_Version e
                            @ ''; os '' @ GOOS e @ ''; arch '' @ GOARCH e @ '')'')
       \<and> Some (UserAgent (DatadogClientV1 r)) = getUserAgent e (userAgentV1 e)
       \<and> Some (UserAgent (DatadogClientV2 r)) = getUserAgent e (userAgentV2 e)
       \<and> (getUserAgent e a = getUserAgent e b \<longleftrightarrow> a = b)"
  unfolding communityUserAgent_def
  using communityClientOf_header [OF providerConfigure_success(1) [OF assms]]
    configurationV1_agent [OF providerConfigure_success(2) [OF assms]]
    configurationV2_agent [OF providerConfigure_success(3) [OF assms]]
    getUserAgent_inject [of e a b]
  by simp

text \<open>The theorem at the sample environment, without an \<^verbatim>\<open>api_url\<close>.\<close>

theorem C2_identity_per_client_witness:
  "\<exists>r tr. providerConfigure sample_env (sample_input [] False) = Some (Inr r, tr)
      \<and> communityUserAgent r = Some ''terraform-provider-datadog/2.13.0 (terraform 1.15.0; terraform-cli 0.13.4) datadog-api-client-go/go-datadog-api (go go1.15.2; os linux; arch amd64)''
      \<and> UserAgent (DatadogClientV1 r) = ''terraform-provider-datadog/2.13.0 (terraform 1.15.0; terraform-cli 0.13.4) datadog-api-client-go/1.0.0-beta.9 (go go1.15.2; os linux; arch amd64)''"
proof -
  obtain r tr where run: "providerConfigure sample_env (sample_input [] False) = Some (Inr r, tr)"
    by (simp add: providerConfigure_def communityClientOf_Some configurationV1_Some
        configurationV2_Some validateKeys_skip serverOverride_none sample_input_def)
  from C2_identity_per_client [OF run]
  have "communityUserAgent r = Some ''terraform-provider-datadog/2.13.0 (terraform 1.15.0; terraform-cli 0.13.4) datadog-api-client-go/go-datadog-api (go go1.15.2; os linux; arch amd64)''"
    and "UserAgent (DatadogClientV1 r) = ''terraform-provider-datadog/2.13.0 (terraform 1.15.0; terraform-cli 0.13.4) datadog-api-client-go/1.0.0-beta.9 (go go1.15.2; os linux; arch amd64)''"
    by (simp_all add: getUserAgent_Some sample_env_def)
  with run show ?thesis by blast
qed

text \<open>
  Claim C2 as it is written fails there: the header of the legacy client and the
  \<^verbatim>\<open>UserAgent\<close> of the V1 client differ.
\<close>

theorem C2_identical_identity_counterexample:
  "map_option (map_sum error_text communityUserAgent \<circ> fst)
       (providerConfigure sample_env (sample_input [] False))
     = Some (Inr (Some ''terraform-provider-datadog/2.13.0 (terraform 1.15.0; terraform-cli 0.13.4) datadog-api-client-go/go-datadog-api (go go1.15.2; os linux; arch amd64)''))
   \<and> map_option (map_sum error_text (UserAgent \<circ> DatadogClientV1) \<circ> fst)
       (providerConfigure sample_env (sample_input [] False))
     = Some (Inr ''terraform-provider-datadog/2.13.0 (terraform 1.15.0; terraform-cli 0.13.4) datadog-api-client-go/1.0.0-beta.9 (go go1.15.2; os linux; arch amd64)'')
   \<and> ''terraform-provider-datadog/2.13.0 (terraform 1.15.0; terraform-cli 0.13.4) datadog-api-client-go/go-datadog-api (go go1.15.2; os linux; arch amd64)''
       \<noteq> ''terraform-provider-datadog/2.13.0 (terraform 1.15.0; terraform-cli 0.13.4) datadog-api-client-go/1.0.0-beta.9 (go go1.15.2; os linux; arch amd64)''"
  by (simp add: providerConfigure_def communityClientOf_Some configurationV1_Some
        configurationV2_Some validateKeys_skip serverOverride_none sample_input_def
        communityUserAgent_def sample_env_def)

section \<open>The endpoint override\<close>




text \<open>
  Claim C3, as the code has it. With an \<^verbatim>\<open>api_url\<close>, a successful bootstrap selects
  server 1 (not the default server 0) in the V1 and in the V2 context, with the host and
  the scheme of the parsed URL as its variables. The table for single operations is
  attached to the V1 context only (lines 210 to 217): the V2 block (lines 238 to 252) has
  no such step, so the V2 context carries no entry for any operation.
\<close>

theorem C3_server_switch:
  assumes "providerConfigure e d = Some (Inr r, tr)" and "api_url d \<noteq> []"
  shows "\<exists>u. url_Parse e (api_url d) = Inr u
     \<and> Value (AuthV1 r) ContextServerIndex = Some (ServerIndex 1)
     \<and> Value (AuthV2 r) ContextServerIndex = Some (ServerIndex 1)
     \<and> Value (AuthV1 r) ContextServerVariables
          = Some (ServerVariables [(''name'', Host u), (''protocol'', Scheme u)])
     \<and> Value (AuthV2 r) ContextServerVariables
          = Some (ServerVariables [(''name'', Host u), (''protocol'', Scheme u)])
     \<and> Value (AuthV1 r) ContextOperationServerIndices
          = Some (OperationServerIndices [(''IPRangesApiService.GetIPRanges'', 1)])
     \<and> Value (AuthV1 r) ContextOperationServerVariables
          = Some (OperationServerVariables
                    [(''IPRangesApiService.GetIPRanges'',
                      [(''name'', ipRangesDNSName (Hostname u))])])
     \<and> Value (AuthV2 r) ContextOperationServerIndices = None
     \<and> Value (AuthV2 r) ContextOperationServerVariables = None"
  using Value_override_V1 [OF providerConfigure_success(4) [OF assms(1)] assms(2)]
    Value_override_V2 [OF providerConfigure_success(5) [OF assms(1)] assms(2)]
  by auto

text \<open>The theorem at \<^verbatim>\<open>https://api.datadoghq.com\<close>.\<close>

theorem C3_server_switch_witness:
  "\<exists>r tr. providerConfigure sample_env (sample_input ''https://api.datadoghq.com'' False)
            = Some (Inr r, tr)
     \<and> Value (AuthV1 r) ContextServerIndex = Some (ServerIndex 1)
     \<and> Value (AuthV2 r) ContextServerVariables
          = Some (ServerVariables [(''name'', ''api.datadoghq.com''), (''protocol'', ''https'')])
     \<and> Value (AuthV2 r) ContextOperationServerVariables = None"
proof -
  obtain r tr where run:
    "providerConfigure sample_env (sample_input ''https://api.datadoghq.com'' False) = Some (Inr r, tr)"
    using sample_run [of "''https://api.datadoghq.com''"] by auto
  have url: "api_url (sample_input ''https://api.datadoghq.com'' False) \<noteq> []"
    by (simp add: sample_input_def)
  from C3_server_switch [OF run url] show ?thesis
    using run by (auto simp add: sample_input_def sample_env_def sample_Parse_def)
qed

text \<open>
  Claim C3 as it is written fails there for the V2 configuration: its context holds the
  server switch and the keys, and no table for single operations.
\<close>

theorem C3_operation_routing_counterexample:
  "map_option (map_sum error_text AuthV2 \<circ> fst)
       (providerConfigure sample_env (sample_input ''https://api.datadoghq.com'' False))
     = Some (Inr [(ContextServerVariables,
                   ServerVariables [(''name'', ''api.datadoghq.com''), (''protocol'', ''https'')]),
                  (ContextServerIndex, ServerIndex 1),
                  (ContextAPIKeys,
                   APIKeys [(''apiKeyAuth'', ''0123456789abcdef''),
                            (''appKeyAuth'', ''fedcba9876543210'')])])
   \<and> Value [(ContextServerVariables,
              ServerVariables [(''name'', ''api.datadoghq.com''), (''protocol'', ''https'')]),
             (ContextServerIndex, ServerIndex 1),
             (ContextAPIKeys,
              APIKeys [(''apiKeyAuth'', ''0123456789abcdef''),
                       (''appKeyAuth'', ''fedcba9876543210'')])]
        ContextOperationServerVariables = None"
  by (simp add: providerConfigure_def communityClientOf_Some configurationV1_Some
      configurationV2_Some validateKeys_skip serverOverrideV1_def serverOverrideV2_def
      sample_input_def sample_env_def sample_Parse_def Value_def authContext_def
      context_WithValue_def context_Background_def)

section \<open>The host of the IP ranges service\<close>

text \<open>
  Claim C4. The host name of the override (the value of \<^verbatim>\<open>Hostname()\<close>, which is
  the host without a port) is split at its dots; the first label is dropped exactly when
  there are more than two; \<^verbatim>\<open>ip-ranges\<close> is put in front and the labels are joined
  with dots again. Stated for any host name given by its labels, then at the two hosts of
  the claim. In a successful bootstrap the V1 context holds this name under the one
  operation \<^verbatim>\<open>IPRangesApiService.GetIPRanges\<close> when an \<^verbatim>\<open>api_url\<close> was
  supplied, and holds no table for single operations when none was.
\<close>

theorem C4_ip_ranges_host:
  "(labels \<noteq> [] \<and> (\<forall>l \<in> set labels. CHR ''.'' \<notin> set l) \<longrightarrow>
      ipRangesDNSName (strings_Join labels ''.'')
        = strings_Join (''ip-ranges'' # (if length labels > 2 then tl labels else labels)) ''.'')
   \<and> ipRangesDNSName (Hostname \<lparr>Scheme = ''https'', Host = ''api.datadoghq.com''\<rparr>)
        = ''ip-ranges.datadoghq.com''
   \<and> ipRangesDNSName (Hostname \<lparr>Scheme = ''https'', Host = ''app.us5.datadoghq.com''\<rparr>)
        = ''ip-ranges.us5.datadoghq.com''
   \<and> (providerConfigure e d = Some (Inr r, tr) \<longrightarrow>
        (if api_url d = [] then
           Value (AuthV1 r) ContextOperationServerVariables = None
         \<and> Value (AuthV1 r) ContextOperationServerIndices = None
         else
           (\<exists>u. url_Parse e (api_url d) = Inr u
              \<and> Value (AuthV1 r) ContextOperationServerVariables
                  = Some (OperationServerVariables
                            [(''IPRangesApiService.GetIPRanges'',
                              [(''name'', ipRangesDNSName (Hostname u))])]))))"
proof -
  have general: "ipRangesDNSName (strings_Join labels ''.'')
        = strings_Join (''ip-ranges'' # (if length labels > 2 then tl labels else labels)) ''.''"
    if "labels \<noteq> []" and "\<forall>l \<in> set labels. CHR ''.'' \<notin> set l"
    using strings_Split_Join [OF that]
    by (simp add: ipRangesDNSName_def baseIpRangesSubdomain_def Let_def drop_Suc)
  have ex1: "ipRangesDNSName (Hostname \<lparr>Scheme = ''https'', Host = ''api.datadoghq.com''\<rparr>)
        = ''ip-ranges.datadoghq.com''"
    by (simp add: ipRangesDNSName_def baseIpRangesSubdomain_def Hostname_def splitHostPort_def
        validOptionalPort_def strings_HasSuffix_def Let_def)
  have ex2: "ipRangesDNSName (Hostname \<lparr>Scheme = ''https'', Host = ''app.us5.datadoghq.com''\<rparr>)
        = ''ip-ranges.us5.datadoghq.com''"
    by (simp add: ipRangesDNSName_def baseIpRangesSubdomain_def Hostname_def splitHostPort_def
        validOptionalPort_def strings_HasSuffix_def Let_def)
  have boot: "if api_url d = [] then
           Value (AuthV1 r) ContextOperationServerVariables = None
         \<and> Value (AuthV1 r) ContextOperationServerIndices = None
         else
           (\<exists>u. url_Parse e (api_url d) = Inr u
              \<and> Value (AuthV1 r) ContextOperationServerVariables
                  = Some (OperationServerVariables
                            [(''IPRangesApiService.GetIPRanges'',
                              [(''name'', ipRangesDNSName (Hostname u))])]))"
    if run: "providerConfigure e d = Some (Inr r, tr)"
  proof (cases "api_url d = []")
    case True
    then have "AuthV1 r = authContext d"
      using providerConfigure_success(4) [OF run] by (simp add: serverOverride_none)
    then show ?thesis using True by (simp add: Value_authContext)
  next
    case False
    then show ?thesis
      using Value_override_V1 [OF providerConfigure_success(4) [OF run] False] by auto
  qed
  from general ex1 ex2 boot show ?thesis by blast
qed

text \<open>The theorem at the four labels of \<^verbatim>\<open>app.us5.datadoghq.com\<close> and at that URL.\<close>

theorem C4_ip_ranges_host_witness:
  "ipRangesDNSName (strings_Join [''app'', ''us5'', ''datadoghq'', ''com''] ''.'')
     = ''ip-ranges.us5.datadoghq.com''
   \<and> (\<exists>r tr. providerConfigure sample_env (sample_input ''https://app.us5.datadoghq.com'' False)
                = Some (Inr r, tr)
        \<and> Value (AuthV1 r) ContextOperationServerVariables
            = Some (OperationServerVariables
                      [(''IPRangesApiService.GetIPRanges'',
                        [(''name'', ''ip-ranges.us5.datadoghq.com'')])]))"
proof -
  obtain r tr where run:
    "providerConfigure sample_env (sample_input ''https://app.us5.datadoghq.com'' False) = Some (Inr r, tr)"
    using sample_run [of "''https://app.us5.datadoghq.com''"] by auto
  note inst = C4_ip_ranges_host [where labels = "[''app'', ''us5'', ''datadoghq'', ''com'']"
      and e = sample_env and d = "sample_input ''https://app.us5.datadoghq.com'' False"
      and r = r and tr = tr]
  have a: "ipRangesDNSName (strings_Join [''app'', ''us5'', ''datadoghq'', ''com''] ''.'')
     = ''ip-ranges.us5.datadoghq.com''"
    using inst by simp
  have b: "Value (AuthV1 r) ContextOperationServerVariables
            = Some (OperationServerVariables
                      [(''IPRangesApiService.GetIPRanges'',
                        [(''name'', ''ip-ranges.us5.datadoghq.com'')])])"
    using inst run by (auto simp add: sample_input_def sample_env_def sample_Parse_def)
  from a b run show ?thesis by blast
qed

text \<open>
  Claim C10. When the host of the parsed URL ends with a colon and a port of digits, the
  server variable \<^verbatim>\<open>name\<close> of both contexts is that host with its port (line 197 reads
  \<^verbatim>\<open>Host\<close>), while the name for the IP ranges operation is computed from
  \<^verbatim>\<open>Hostname()\<close> (line 203), which is the part before that colon, without the square
  brackets of an IPv6 literal. The port is therefore not part of it; for a host part without
  a colon of its own the name contains no colon at all.
\<close>

theorem C10_port_stripped:
  assumes "providerConfigure e d = Some (Inr r, tr)"
    and "api_url d \<noteq> []"
    and "url_Parse e (api_url d) = Inr u"
    and "Host u = h @ '':'' @ port"
    and "list_all (\<lambda>b. b \<in> set ''0123456789'') port"
  shows "Value (AuthV1 r) ContextServerVariables
           = Some (ServerVariables [(''name'', h @ '':'' @ port), (''protocol'', Scheme u)])
       \<and> Value (AuthV2 r) ContextServerVariables
           = Some (ServerVariables [(''name'', h @ '':'' @ port), (''protocol'', Scheme u)])
       \<and> Hostname u = (if strings_HasPrefix h ''['' \<and> strings_HasSuffix h '']''
                        then take (length h - 2) (drop 1 h) else h)
       \<and> Value (AuthV1 r) ContextOperationServerVariables
           = Some (OperationServerVariables
                     [(''IPRangesApiService.GetIPRanges'',
                       [(''name'', ipRangesDNSName (Hostname u))])])
       \<and> (CHR '':'' \<notin> set h \<longrightarrow> CHR '':'' \<notin> set (ipRangesDNSName (Hostname u)))"
proof -
  have hn: "Hostname u = (if strings_HasPrefix h ''['' \<and> strings_HasSuffix h '']''
                          then take (length h - 2) (drop 1 h) else h)"
    using splitHostPort_port [OF assms(5), of h] assms(4) by (simp add: Hostname_def)
  have sub: "set (Hostname u) \<subseteq> set h"
    unfolding hn by (auto dest: in_set_takeD in_set_dropD)
  have nocolon: "CHR '':'' \<notin> set (ipRangesDNSName (Hostname u))" if "CHR '':'' \<notin> set h"
  proof
    assume "CHR '':'' \<in> set (ipRangesDNSName (Hostname u))"
    then have "CHR '':'' \<in> set (Hostname u) \<or> CHR '':'' \<in> set ''ip-ranges.''"
      by (rule ipRangesDNSName_chars)
    then show False using sub that by auto
  qed
  from Value_override_V1 [OF providerConfigure_success(4) [OF assms(1)] assms(2)]
    Value_override_V2 [OF providerConfigure_success(5) [OF assms(1)] assms(2)]
    assms(3,4) hn nocolon
  show ?thesis by auto
qed

text \<open>The theorem at \<^verbatim>\<open>https://api.example.com:8080\<close>.\<close>

theorem C10_port_stripped_witness:
  "\<exists>r tr. providerConfigure sample_env (sample_input ''https://api.example.com:8080'' False)
            = Some (Inr r, tr)
     \<and> Value (AuthV1 r) ContextServerVariables
          = Some (ServerVariables [(''name'', ''api.example.com:8080''), (''protocol'', ''https'')])
     \<and> Value (AuthV1 r) ContextOperationServerVariables
          = Some (OperationServerVariables
                    [(''IPRangesApiService.GetIPRanges'', [(''name'', ''ip-ranges.example.com'')])])"
proof -
  obtain r tr where run:
    "providerConfigure sample_env (sample_input ''https://api.example.com:8080'' False) = Some (Inr r, tr)"
    using sample_run [of "''https://api.example.com:8080''"] by auto
  have url: "api_url (sample_input ''https://api.example.com:8080'' False) \<noteq> []"
    by (simp add: sample_input_def)
  have parse: "url_Parse sample_env (api_url (sample_input ''https://api.example.com:8080'' False))
                 = Inr \<lparr>Scheme = ''https'', Host = ''api.example.com:8080''\<rparr>"
    by (simp add: sample_input_def sample_env_def sample_Parse_def)
  have host: "Host \<lparr>Scheme = ''https'', Host = ''api.example.com:8080''\<rparr>
                = ''api.example.com'' @ '':'' @ ''8080''"
    by simp
  have digits: "list_all (\<lambda>b. b \<in> set ''0123456789'') ''8080''"
    by simp
  have name: "ipRangesDNSName ''api.example.com'' = ''ip-ranges.example.com''"
    by (simp add: ipRangesDNSName_def baseIpRangesSubdomain_def Let_def)
  from C10_port_stripped [OF run url parse host digits] name
  have "Value (AuthV1 r) ContextServerVariables
          = Some (ServerVariables [(''name'', ''api.example.com:8080''), (''protocol'', ''https'')])"
    and "Value (AuthV1 r) ContextOperationServerVariables
          = Some (OperationServerVariables
                    [(''IPRangesApiService.GetIPRanges'', [(''name'', ''ip-ranges.example.com'')])])"
    by simp_all
  with run show ?thesis by blast
qed

section \<open>The error translator\<close>

text \<open>
  Claim C8, at an input where the code departs from it. The claim promises, for every
  context message, a message that contains the context, the text of the error and the
  body. \<^verbatim>\<open>translateClientError\<close> builds the format string of \<^verbatim>\<open>fmt.Errorf\<close> from
  the context message (\<^verbatim>\<open>msg+": %v: %s"\<close>, lines 273 and 276), so a verb inside the
  message takes the first operand: with the context \<^verbatim>\<open>error updating monitor %s\<close> the
  error text fills the \<^verbatim>\<open>%s\<close> of the message, the body is printed by \<^verbatim>\<open>%v\<close> as a
  list of byte values, and the last verb has no operand left. The result contains neither
  the context as given nor the text of the body. (Lemma \<open>translateClientError_plain\<close>
  is the claim for the messages without \<^verbatim>\<open>%\<close>.)
\<close>

theorem C8_verb_in_context:
  "translateClientError (V1GenericOpenAPIError ''403 Forbidden'' ''access denied'')
       ''error updating monitor %s''
     = Some ''error updating monitor 403 Forbidden: [97 99 99 101 115 115 32 100 101 110 105 101 100]: %!s(MISSING)''
   \<and> \<not> strings_Contains
          ''error updating monitor 403 Forbidden: [97 99 99 101 115 115 32 100 101 110 105 101 100]: %!s(MISSING)''
          ''error updating monitor %s''
   \<and> \<not> strings_Contains
          ''error updating monitor 403 Forbidden: [97 99 99 101 115 115 32 100 101 110 105 101 100]: %!s(MISSING)''
          ''access denied''"
  by (simp add: translateClientError_def byteDecimal_def digit_def Let_def)

end
